theory Spec2Isabelle
  imports Complex_Main "HOL-Library.Monad_Syntax"
begin

chapter \<open>The development application scraper of the District Council of Streaky Bay\<close>

text \<open>
  The scraper reads the council's registers of development applications (PDF documents),
  finds the application number, the address, the description and the date on every page,
  corrects the address with the help of lists of street, suburb and hundred names, and
  stores one row per application in a database.  This theory models the functions of
  \<^verbatim>\<open>scraper.ts\<close> that do not touch the network or a file: \<open>formatAddress\<close>, the
  deduplication in \<open>parsePdf\<close>, \<open>insertRow\<close> as a function on the table, \<open>intersect\<close> and
  \<open>getPercentageOfElementInRectangle\<close>; and \<open>addressComparer\<close> of the earlier revision of
  the scraper, which ranks the candidate addresses of a field that holds several addresses.
  The definitions come first, the theorems after them.
\<close>

section \<open>JavaScript strings\<close>

text \<open>
  A string is a list of 8-bit characters, one per UTF-16 code unit of the JavaScript string,
  so the model covers text in the Latin-1 range.  \<open>isSpace\<close> is the class \<^verbatim>\<open>\s\<close> there
  (tab, line feed, vertical tab, form feed, carriage return, space and the no-break space),
  \<open>isDigit\<close> is \<^verbatim>\<open>\d\<close> and \<open>isWordChar\<close> is \<^verbatim>\<open>\w\<close>.
\<close>

definition isSpace :: "char \<Rightarrow> bool" where
  "isSpace c = (c \<in> set [CHR 0x09, CHR 0x0A, CHR 0x0B, CHR 0x0C, CHR 0x0D, CHR '' '', CHR 0xA0])"

definition isDigit :: "char \<Rightarrow> bool" where
  "isDigit c = (c \<in> set ''0123456789'')"

definition isWordChar :: "char \<Rightarrow> bool" where
  "isWordChar c =
     (c \<in> set ''abcdefghijklmnopqrstuvwxyzABCDEFGHIJKLMNOPQRSTUVWXYZ0123456789_'')"

text \<open>
  \<^verbatim>\<open>toUpperCase\<close> and \<^verbatim>\<open>toLowerCase\<close> on Latin-1 text.  The letters are the 26 ASCII
  letters and the 30 accented letters with codes 224 to 254 (lower case) and 192 to 222
  (upper case), without the division sign (247) and the multiplication sign (215).  The
  sharp s (223) has no upper-case letter: \<^verbatim>\<open>toUpperCase\<close> replaces it by \<^verbatim>\<open>SS\<close>, so the
  upper-case string can be longer.  The upper-case forms of the micro sign (181) and of the
  y with diaeresis (255) are U+039C and U+0178, outside Latin-1: a text with one of these
  two characters is outside the model, which leaves them as they are.
\<close>

definition lowerLetters :: string where
  "lowerLetters = ''abcdefghijklmnopqrstuvwxyz'' @
       [
         CHR 0xE0, CHR 0xE1, CHR 0xE2, CHR 0xE3, CHR 0xE4, CHR 0xE5, CHR 0xE6, CHR 0xE7,
         CHR 0xE8, CHR 0xE9, CHR 0xEA, CHR 0xEB, CHR 0xEC, CHR 0xED, CHR 0xEE, CHR 0xEF,
         CHR 0xF0, CHR 0xF1, CHR 0xF2, CHR 0xF3, CHR 0xF4, CHR 0xF5, CHR 0xF6, CHR 0xF8,
         CHR 0xF9, CHR 0xFA, CHR 0xFB, CHR 0xFC, CHR 0xFD, CHR 0xFE]"

definition upperLetters :: string where
  "upperLetters = ''ABCDEFGHIJKLMNOPQRSTUVWXYZ'' @
       [
         CHR 0xC0, CHR 0xC1, CHR 0xC2, CHR 0xC3, CHR 0xC4, CHR 0xC5, CHR 0xC6, CHR 0xC7,
         CHR 0xC8, CHR 0xC9, CHR 0xCA, CHR 0xCB, CHR 0xCC, CHR 0xCD, CHR 0xCE, CHR 0xCF,
         CHR 0xD0, CHR 0xD1, CHR 0xD2, CHR 0xD3, CHR 0xD4, CHR 0xD5, CHR 0xD6, CHR 0xD8,
         CHR 0xD9, CHR 0xDA, CHR 0xDB, CHR 0xDC, CHR 0xDD, CHR 0xDE]"

definition toUpperCaseChar :: "char \<Rightarrow> char" where
  "toUpperCaseChar c =
     (case map_of (zip lowerLetters upperLetters) c of None \<Rightarrow> c | Some u \<Rightarrow> u)"

definition toLowerCaseChar :: "char \<Rightarrow> char" where
  "toLowerCaseChar c =
     (case map_of (zip upperLetters lowerLetters) c of None \<Rightarrow> c | Some l \<Rightarrow> l)"

definition toUpperCase :: "string \<Rightarrow> string" where
  "toUpperCase s =
     concat (map (\<lambda>c. if c = CHR 0xDF then ''SS'' else [toUpperCaseChar c]) s)"

definition toLowerCase :: "string \<Rightarrow> string" where
  "toLowerCase s = map toLowerCaseChar s"

text \<open>\<open>dropTrailing P\<close> is \<^verbatim>\<open>replace(/[P]+$/, "")\<close>: it removes the longest run of
  characters of the class at the end of the string.\<close>

definition dropTrailing :: "(char \<Rightarrow> bool) \<Rightarrow> string \<Rightarrow> string" where
  "dropTrailing P s = rev (dropWhile P (rev s))"

definition trim :: "string \<Rightarrow> string" where
  "trim s = dropWhile isSpace (dropTrailing isSpace s)"

definition startsWith :: "string \<Rightarrow> string \<Rightarrow> bool" where
  "startsWith s p = (take (length p) s = p)"

text \<open>\<^verbatim>\<open>split(" ")\<close> and \<^verbatim>\<open>join(" ")\<close>.  Splitting always gives at least one token, and
  two spaces in a row give an empty token.\<close>

fun split :: "string \<Rightarrow> string list" where
  "split [] = [[]]"
| "split (c # cs) =
     (if c = CHR '' '' then [] # split cs
      else (case split cs of [] \<Rightarrow> [[c]] | t # ts \<Rightarrow> (c # t) # ts))"

fun join :: "string list \<Rightarrow> string" where
  "join [] = []"
| "join [t] = t"
| "join (t # u # ts) = t @ '' '' @ join (u # ts)"

text \<open>\<^verbatim>\<open>pop()\<close> gives \<^verbatim>\<open>undefined\<close> on an empty array; \<^verbatim>\<open>slice(-index)\<close> is the last
  \<open>index\<close> elements (all of them when there are fewer) and \<^verbatim>\<open>splice(-index, index)\<close>
  removes them.\<close>

definition pop :: "'a list \<Rightarrow> ('a \<times> 'a list) option" where
  "pop xs = (if xs = [] then None else Some (last xs, butlast xs))"

definition slice_end :: "nat \<Rightarrow> 'a list \<Rightarrow> 'a list" where
  "slice_end index xs = drop (length xs - index) xs"

definition splice_end :: "nat \<Rightarrow> 'a list \<Rightarrow> 'a list" where
  "splice_end index xs = take (length xs - index) xs"

text \<open>The class \<^verbatim>\<open>[-\<dots>]\<close> of the trailing-dash pattern: the hyphen and the letter
  a-circumflex (code 226); its two other members, U+20AC and U+201C, lie outside Latin-1.\<close>

definition isDash :: "char \<Rightarrow> bool" where
  "isDash c = (c = CHR ''-'' \<or> c = CHR 0xE2)"

definition isComma :: "char \<Rightarrow> bool" where
  "isComma c = (c = CHR '','')"

text \<open>\<^verbatim>\<open>replace(/\s\s+/g, " ")\<close>: every run of two or more white space characters becomes
  one space; a single white space character stays as it is.\<close>

function collapseSpaces :: "string \<Rightarrow> string" where
  "collapseSpaces [] = []"
| "collapseSpaces [c] = [c]"
| "collapseSpaces (c # d # cs) =
     (if isSpace c \<and> isSpace d then CHR '' '' # collapseSpaces (dropWhile isSpace cs)
      else c # collapseSpaces (d # cs))"
  by pat_completeness auto
termination
  by (relation "measure length")
    (auto simp: le_imp_less_Suc length_dropWhile_le less_Suc_eq_le le_SucI)

text \<open>\<^verbatim>\<open>replace(/^p/, "")\<close> for a literal prefix \<open>p\<close>.\<close>

definition removePrefix :: "string \<Rightarrow> string \<Rightarrow> string" where
  "removePrefix p s = (if startsWith s p then drop (length p) s else s)"

text \<open>\<^verbatim>\<open>/^\d\d\d\d$/.test(token)\<close>.\<close>

fun isPostCode :: "string \<Rightarrow> bool" where
  "isPostCode [a, b, c, d] = (isDigit a \<and> isDigit b \<and> isDigit c \<and> isDigit d)"
| "isPostCode _ = False"

text \<open>\<^verbatim>\<open>/\bSA\b/.test(address)\<close>, scanning from the left; \<open>afterWord\<close> says whether the
  character before the current position is a word character.\<close>

fun containsSA :: "bool \<Rightarrow> string \<Rightarrow> bool" where
  "containsSA afterWord [] = False"
| "containsSA afterWord (c # cs) =
     ((\<not> afterWord \<and> c = CHR ''S'' \<and> startsWith cs ''A''
         \<and> (case drop 1 cs of [] \<Rightarrow> True | d # _ \<Rightarrow> \<not> isWordChar d))
      \<or> containsSA (isWordChar c) cs)"

section \<open>The gazetteer and the fuzzy matcher\<close>

text \<open>
  The four global objects filled at start-up, each as the list of its properties in
  enumeration order: \<^verbatim>\<open>Object.keys\<close> is \<open>map fst\<close>, \<^verbatim>\<open>Object.values\<close> is \<open>map snd\<close> and a
  property read is \<open>map_of\<close>, with \<open>None\<close> for \<^verbatim>\<open>undefined\<close>.
\<close>

record Gazetteer =
  StreetNames :: "(string \<times> string list) list"
  StreetSuffixes :: "(string \<times> string) list"
  SuburbNames :: "(string \<times> string) list"
  HundredNames :: "(string \<times> string list) list"

text \<open>
  \<^verbatim>\<open>didYouMean(input, matchList, { caseSensitive: false, returnType: FIRST_CLOSEST_MATCH,
  thresholdType: EDIT_DISTANCE, threshold: t, trimSpaces: true })\<close> comes from the library
  \<^verbatim>\<open>didyoumean2\<close>.  \<open>formatAddress\<close> takes it as a parameter of type \<open>matcher\<close>, with the
  threshold as third argument and \<open>None\<close> for \<^verbatim>\<open>null\<close>, and the theorems about
  \<open>formatAddress\<close> hold for every matcher.
\<close>

type_synonym matcher = "string \<Rightarrow> string list \<Rightarrow> nat \<Rightarrow> string option"

text \<open>
  Modelled from the spec: the library function \<^verbatim>\<open>didYouMean\<close> is not part of the repository.
  Section 4.2 of the specification describes it: the candidate with the smallest edit
  distance to the query, compared case-insensitively and trimmed, provided the distance does
  not exceed the threshold; the first candidate in list order among equally close ones; no
  match otherwise.  \<open>editDistance\<close> is the Levenshtein distance, computed row by row.  The
  concrete runs of \<open>formatAddress\<close> below use this matcher.
\<close>

fun editRow :: "char \<Rightarrow> string \<Rightarrow> nat \<Rightarrow> nat list \<Rightarrow> nat \<Rightarrow> nat list" where
  "editRow a (b # bs) diag (up # ups) left =
     (let d = min (min (up + 1) (left + 1)) (diag + (if a = b then 0 else 1))
      in d # editRow a bs up ups d)"
| "editRow a _ diag _ left = []"

fun editRows :: "string \<Rightarrow> string \<Rightarrow> nat \<Rightarrow> nat list \<Rightarrow> nat" where
  "editRows [] bs first row = last (first # row)"
| "editRows (a # as) bs first row =
     editRows as bs (first + 1) (editRow a bs first row (first + 1))"

definition editDistance :: "string \<Rightarrow> string \<Rightarrow> nat" where
  "editDistance as bs = editRows as bs 0 [1 ..< length bs + 1]"

fun closest :: "string \<Rightarrow> string list \<Rightarrow> (string \<times> nat) option \<Rightarrow> (string \<times> nat) option" where
  "closest q [] best = best"
| "closest q (c # cs) best =
     (let d = editDistance q (toLowerCase (trim c))
      in closest q cs
           (case best of
              None \<Rightarrow> Some (c, d)
            | Some (b, bd) \<Rightarrow> if d < bd then Some (c, d) else best))"

definition didYouMean :: matcher where
  "didYouMean query candidates threshold =
     (case closest (toLowerCase (trim query)) candidates None of
        None \<Rightarrow> None
      | Some (c, d) \<Rightarrow> if d \<le> threshold then Some c else None)"

section \<open>\<open>formatAddress\<close> of the single free-text address field\<close>

text \<open>
  \<open>formatAddress\<close> of \<^verbatim>\<open>scraper.ts\<close> is one long function.  It is modelled as the
  sequence of its steps, each a function of its own, so that the claims about one step can
  be stated on it.  A \<^verbatim>\<open>return\<close> before the end is the left injection of the step's result.
  Reading \<^verbatim>\<open>.length\<close> of \<^verbatim>\<open>undefined\<close> (a match that is not a key of the table it is looked
  up in) throws a \<^verbatim>\<open>TypeError\<close>, the error value of the model.
\<close>

datatype error = TypeError

text \<open>Trimming, removal of trailing dashes and collapsing of white space.\<close>

definition cleanAddress :: "string \<Rightarrow> string" where
  "cleanAddress address = trim (collapseSpaces (dropTrailing isDash (trim address)))"

text \<open>Addresses such as \<^verbatim>\<open>"0 0, 0"\<close> and \<^verbatim>\<open>"-"\<close>, and those that say there is no
  residential address.\<close>

definition ignoredAddress :: "string \<Rightarrow> bool" where
  "ignoredAddress address =
     (filter (\<lambda>c. \<not> (isSpace c \<or> c = CHR '','' \<or> c = CHR ''0'' \<or> c = CHR ''-'')) address = []
      \<or> startsWith address ''No Residential Address'')"

text \<open>\<^verbatim>\<open>/^\d,\d\d\d/.test(address)\<close> and \<^verbatim>\<open>/^\d\d,\d\d\d/.test(address)\<close>.\<close>

fun test_d_ddd :: "string \<Rightarrow> bool" where
  "test_d_ddd (a # b # c # d # e # rest) =
     (isDigit a \<and> b = CHR '','' \<and> isDigit c \<and> isDigit d \<and> isDigit e)"
| "test_d_ddd _ = False"

fun test_dd_ddd :: "string \<Rightarrow> bool" where
  "test_dd_ddd (a # b # c # d # e # f # rest) =
     (isDigit a \<and> isDigit b \<and> c = CHR '','' \<and> isDigit d \<and> isDigit e \<and> isDigit f)"
| "test_dd_ddd _ = False"

definition removeHouseNumberComma :: "string \<Rightarrow> string" where
  "removeHouseNumberComma address =
     (if test_d_ddd address then take 1 address @ drop 2 address
      else if test_dd_ddd address then take 2 address @ drop 3 address
      else address)"

definition stateCodes :: "string list" where
  "stateCodes = [''ACT'', ''NSW'', ''NT'', ''QLD'', ''SA'', ''TAS'', ''VIC'', ''WA'']"

text \<open>The two pops at the end of the token array.  \<open>None\<close> is the case
  \<^verbatim>\<open>token === undefined\<close>, in which \<open>formatAddress\<close> returns the address as it is.\<close>

definition popPostCode :: "string list \<Rightarrow> (string option \<times> string list) option" where
  "popPostCode tokens =
     (case pop tokens of
        None \<Rightarrow> None
      | Some (token, tokens') \<Rightarrow>
          if isPostCode token then Some (Some token, tokens') else Some (None, tokens' @ [token]))"

definition popState :: "string list \<Rightarrow> (string \<times> string list) option" where
  "popState tokens =
     (case pop tokens of
        None \<Rightarrow> None
      | Some (token, tokens') \<Rightarrow>
          if toUpperCase token \<in> set stateCodes then Some (toUpperCase token, tokens')
          else Some (''SA'', tokens' @ [token]))"

text \<open>The first part of \<open>formatAddress\<close>, up to the two pops: either a returned string, or
  the address, the post code, the state and the remaining tokens.\<close>

definition parseTokens ::
  "string \<Rightarrow> string + (string \<times> string option \<times> string \<times> string list)" where
  "parseTokens address0 =
     (let address = cleanAddress address0
      in if ignoredAddress address then Inl []
         else
           (let address = removeHouseNumberComma address
            in case popPostCode (split address) of
                 None \<Rightarrow> Inl address
               | Some (postCode, tokens) \<Rightarrow>
                   (case popState tokens of
                      None \<Rightarrow> Inl address
                    | Some (state, tokens) \<Rightarrow> Inr (address, postCode, state, tokens))))"

definition fallbackAddress :: "string \<Rightarrow> string option \<Rightarrow> string \<Rightarrow> string list \<Rightarrow> string" where
  "fallbackAddress address postCode state tokens =
     (case postCode of
        None \<Rightarrow> address
      | Some p \<Rightarrow> trim (join (tokens @ [state, p])))"

text \<open>The loop over \<open>index = 4, \<dots>, 1\<close> that looks for a hundred name at the end of the
  tokens.  The result is \<open>(hasHundredName, suburbName, tokens)\<close>.\<close>

fun hundredNameLoop ::
  "Gazetteer \<Rightarrow> matcher \<Rightarrow> nat \<Rightarrow> string list
     \<Rightarrow> error + (bool \<times> string option \<times> string list)" where
  "hundredNameLoop g match 0 tokens = Inr (False, None, tokens)"
| "hundredNameLoop g match (Suc n) tokens =
     (let index = Suc n;
          tryHundredName = toUpperCase (join (slice_end index tokens))
      in if startsWith tryHundredName ''HD OF '' \<or> startsWith tryHundredName ''HUNDRED OF''
            \<or> startsWith tryHundredName ''HD '' \<or> startsWith tryHundredName ''HUNDRED ''
         then
           (let tryHundredName =
                  trim (removePrefix ''HUNDRED '' (removePrefix ''HD ''
                    (removePrefix ''HUNDRED OF '' (removePrefix ''HD OF '' tryHundredName))))
            in case match tryHundredName (map fst (HundredNames g)) 1 of
                 None \<Rightarrow> hundredNameLoop g match n tokens
               | Some hundredNameMatch \<Rightarrow>
                   (case map_of (HundredNames g) hundredNameMatch of
                      None \<Rightarrow> Inl TypeError
                    | Some suburbNames \<Rightarrow>
                        if length suburbNames = 1
                        then Inr (True, map_of (SuburbNames g) (suburbNames ! 0),
                                  splice_end index tokens)
                        else Inr (True, None, tokens)))
         else hundredNameLoop g match n tokens)"

text \<open>The loop over \<open>index = 4, \<dots>, 1\<close> that looks for a suburb name at the end of the
  tokens.\<close>

fun suburbNameLoop ::
  "Gazetteer \<Rightarrow> matcher \<Rightarrow> nat \<Rightarrow> string list \<Rightarrow> string option \<times> string list" where
  "suburbNameLoop g match 0 tokens = (None, tokens)"
| "suburbNameLoop g match (Suc n) tokens =
     (let index = Suc n;
          trySuburbName = join (slice_end index tokens)
      in case match trySuburbName (map fst (SuburbNames g)) 1 of
           None \<Rightarrow> suburbNameLoop g match n tokens
         | Some suburbNameMatch \<Rightarrow>
             (map_of (SuburbNames g) suburbNameMatch, splice_end index tokens))"

text \<open>The hundred-name path, and the suburb path when no hundred name was found.\<close>

definition findSuburb ::
  "Gazetteer \<Rightarrow> matcher \<Rightarrow> string list \<Rightarrow> error + (string option \<times> string list)" where
  "findSuburb g match tokens =
     (case hundredNameLoop g match 4 tokens of
        Inl e \<Rightarrow> Inl e
      | Inr (hasHundredName, suburbName, tokens') \<Rightarrow>
          if \<not> hasHundredName then Inr (suburbNameLoop g match 4 tokens')
          else Inr (suburbName, tokens'))"

definition expandStreetSuffix :: "Gazetteer \<Rightarrow> string list \<Rightarrow> string list" where
  "expandStreetSuffix g tokens =
     (case pop tokens of
        None \<Rightarrow> tokens
      | Some (token, tokens') \<Rightarrow>
          (let token = trim (dropTrailing isComma (trim token));
               streetSuffix =
                 (case map_of (StreetSuffixes g) (toUpperCase token) of
                    None \<Rightarrow> find (\<lambda>streetSuffix. streetSuffix = toUpperCase token)
                              (map snd (StreetSuffixes g))
                  | Some streetSuffix \<Rightarrow> Some streetSuffix)
           in case streetSuffix of
                None \<Rightarrow> tokens' @ [token]
              | Some streetSuffix \<Rightarrow> tokens' @ [streetSuffix]))"

text \<open>The loop over \<open>index = 5, \<dots>, 1\<close> that looks for a street name at the end of the
  tokens; when no suburb is known yet and the street has exactly one suburb, that suburb is
  taken.  The result is \<open>(streetName, suburbName, tokens)\<close>.\<close>

fun streetNameLoop ::
  "Gazetteer \<Rightarrow> matcher \<Rightarrow> nat \<Rightarrow> string option \<Rightarrow> string list
     \<Rightarrow> error + (string option \<times> string option \<times> string list)" where
  "streetNameLoop g match 0 suburbName tokens = Inr (None, suburbName, tokens)"
| "streetNameLoop g match (Suc n) suburbName tokens =
     (let index = Suc n;
          tryStreetName = trim (dropTrailing isComma (trim (join (slice_end index tokens))))
      in case match tryStreetName (map fst (StreetNames g)) 1 of
           None \<Rightarrow> streetNameLoop g match n suburbName tokens
         | Some streetNameMatch \<Rightarrow>
             (case suburbName of
                Some s \<Rightarrow> Inr (Some streetNameMatch, suburbName, splice_end index tokens)
              | None \<Rightarrow>
                  (case map_of (StreetNames g) streetNameMatch of
                     None \<Rightarrow> Inl TypeError
                   | Some suburbNames \<Rightarrow>
                       if length suburbNames = 1
                       then Inr (Some streetNameMatch, map_of (SuburbNames g) (suburbNames ! 0),
                                 splice_end index tokens)
                       else Inr (Some streetNameMatch, None, splice_end index tokens))))"

text \<open>The suburb that the street-name step supplies when none is known yet: the entry, in
  the table of suburbs, of the only suburb of the matched street.\<close>

definition suburbOfStreet :: "Gazetteer \<Rightarrow> string option \<Rightarrow> string option" where
  "suburbOfStreet g street =
     (case street of
        None \<Rightarrow> None
      | Some name \<Rightarrow>
          (case map_of (StreetNames g) name of
             Some [key] \<Rightarrow> map_of (SuburbNames g) key
           | _ \<Rightarrow> None))"

text \<open>\<^verbatim>\<open>suburbName.replace(/\s+\d\d\d\d$/, " " + postCode)\<close>.\<close>

definition overridePostCode :: "string \<Rightarrow> string \<Rightarrow> string" where
  "overridePostCode suburbName postCode =
     (let n = length suburbName
      in if 5 \<le> n \<and> isPostCode (drop (n - 4) suburbName) \<and> isSpace (suburbName ! (n - 5))
         then dropTrailing isSpace (take (n - 4) suburbName) @ '' '' @ postCode
         else suburbName)"

text \<open>The local variables of \<open>formatAddress\<close> when it has finished looking for the suburb
  and the street and has applied the post code of the address to the suburb.\<close>

record Resolution =
  explicitPostCode :: "string option"
  stateCode :: string
  fallback :: string
  remainingTokens :: "string list"
  resolvedStreet :: "string option"
  resolvedSuburb :: "string option"

definition resolveAddress ::
  "Gazetteer \<Rightarrow> matcher \<Rightarrow> string \<Rightarrow> error + (string + Resolution)" where
  "resolveAddress g match address0 =
     (case parseTokens address0 of
        Inl returned \<Rightarrow> Inr (Inl returned)
      | Inr (address, postCode, state, tokens) \<Rightarrow>
          (case findSuburb g match tokens of
             Inl e \<Rightarrow> Inl e
           | Inr (suburbName, tokens') \<Rightarrow>
               (case streetNameLoop g match 5 suburbName (expandStreetSuffix g tokens') of
                  Inl e \<Rightarrow> Inl e
                | Inr (streetName, suburbName', tokens'') \<Rightarrow>
                    Inr (Inr \<lparr> explicitPostCode = postCode, stateCode = state,
                      fallback = fallbackAddress address postCode state tokens,
                      remainingTokens = tokens'', resolvedStreet = streetName,
                      resolvedSuburb =
                        (case (postCode, suburbName') of
                           (Some p, Some s) \<Rightarrow> Some (overridePostCode s p)
                         | _ \<Rightarrow> suburbName') \<rparr>))))"

text \<open>The end of \<open>formatAddress\<close>: the rejection of an address without suburb, the
  reconstruction with a comma between street address and suburb, and the state \<open>SA\<close>.\<close>

definition streetAddressOf :: "string list \<Rightarrow> string option \<Rightarrow> string" where
  "streetAddressOf tokens streetName =
     (let tokens' =
            (case streetName of
               None \<Rightarrow> tokens
             | Some name \<Rightarrow> if trim name \<noteq> [] then tokens @ [name] else tokens)
      in trim (dropTrailing isComma (trim (join tokens'))))"

definition ensureSA :: "string \<Rightarrow> string" where
  "ensureSA address =
     (if address \<noteq> [] \<and> \<not> containsSA False address then address @ '' SA'' else address)"

definition assembleAddress :: "Resolution \<Rightarrow> string" where
  "assembleAddress r =
     (case resolvedSuburb r of
        None \<Rightarrow> []
      | Some suburbName \<Rightarrow>
          ensureSA
            (if trim suburbName = [] then fallback r
             else
               (let streetAddress = streetAddressOf (remainingTokens r) (resolvedStreet r)
                in streetAddress @ (if streetAddress = [] then [] else '', '') @ suburbName)))"

definition formatAddress :: "Gazetteer \<Rightarrow> matcher \<Rightarrow> string \<Rightarrow> string \<Rightarrow> error + string" where
  "formatAddress g match applicationNumber address =
     (case resolveAddress g match address of
        Inl e \<Rightarrow> Inl e
      | Inr (Inl returned) \<Rightarrow> Inr returned
      | Inr (Inr r) \<Rightarrow> Inr (assembleAddress r))"

text \<open>A small gazetteer for the concrete runs.\<close>

definition sampleGazetteer :: Gazetteer where
  "sampleGazetteer =
     \<lparr> StreetNames = [(''BAY ROAD'', [''STREAKY BAY'']),
                      (''JEFFERSON COURT'', [''WELLINGTON EAST''])],
       StreetSuffixes = [(''RD'', ''ROAD''), (''CT'', ''COURT'')],
       SuburbNames = [(''STREAKY BAY'', ''STREAKY BAY SA 5680''),
                      (''WELLINGTON EAST'', ''WELLINGTON EAST SA 5259'')],
       HundredNames = [(''RIPON'', [''STREAKY BAY''])] \<rparr>"

text \<open>A second gazetteer, whose suburb entry carries no state, for the runs that show the
  state \<open>SA\<close> being appended.\<close>

definition plainGazetteer :: Gazetteer where
  "plainGazetteer =
     \<lparr> StreetNames = [(''EYRE AVENUE'', [''WIRRULLA''])],
       StreetSuffixes = [(''AV'', ''AVENUE'')],
       SuburbNames = [(''WIRRULLA'', ''WIRRULLA 5661'')],
       HundredNames = [] \<rparr>"

subsection \<open>The statements of the specification\<close>

text \<open>
  The final assembly as the specification words it: the remaining tokens, a space, the
  resolved street name, a comma and the resolved suburb; trimmed, trailing commas stripped,
  upper-cased, and \<open>SA\<close> appended when the standalone token \<open>SA\<close> is missing.
\<close>

definition specAssembly :: "string list \<Rightarrow> string \<Rightarrow> string \<Rightarrow> string" where
  "specAssembly tokens streetName suburbName =
     (let a = toUpperCase (dropTrailing isComma
                (trim (join tokens @ '' '' @ streetName @ '', '' @ suburbName)))
      in if containsSA False a then a else a @ '' SA'')"




section \<open>Ranking of candidate addresses (\<open>addressComparer\<close>)\<close>

text \<open>
  The multiplexed address parser collects candidate addresses as objects
  \<^verbatim>\<open>{ houseNumber, streetName, suburbName, threshold, candidate }\<close>, where
  \<^verbatim>\<open>candidate\<close> is the object \<^verbatim>\<open>{ group1, group2, hasInvalidHundredName }\<close> of the
  delimiter split that produced the address.  The threshold is the edit distance at which the
  street name was recognised: 0, 1, 2 or \<^verbatim>\<open>Number.MAX_VALUE\<close>, all of them natural numbers.
\<close>

record Candidate =
  group1 :: "string list"
  group2 :: "string list"
  hasInvalidHundredName :: bool

record Address =
  houseNumber :: string
  streetName :: string
  suburbName :: string
  threshold :: nat
  candidate :: Candidate

definition Number_MAX_VALUE :: nat where
  "Number_MAX_VALUE = 2 ^ 1024 - 2 ^ 971"

text \<open>
  The comparer is a chain of guarded \<^verbatim>\<open>return\<close> statements with no final
  \<^verbatim>\<open>return\<close>: falling off the end of a JavaScript function yields \<^verbatim>\<open>undefined\<close>,
  which is the value \<open>None\<close> here.
\<close>

definition addressComparer :: "Address \<Rightarrow> Address \<Rightarrow> int option" where
  "addressComparer a b =
     (if (threshold a \<le> 2 \<and> threshold b \<le> 2)
           \<and> (houseNumber a = [] \<and> houseNumber b \<noteq> []) then Some 1
      else if (threshold a \<le> 2 \<and> threshold b \<le> 2)
           \<and> (houseNumber a \<noteq> [] \<and> houseNumber b = []) then Some (- 1)
      else if threshold a > threshold b then Some 1
      else if threshold a < threshold b then Some (- 1)
      else if houseNumber a = [] \<and> houseNumber b \<noteq> [] then Some 1
      else if houseNumber a \<noteq> [] \<and> houseNumber b = [] then Some (- 1)
      else if hasInvalidHundredName (candidate a) \<and> \<not> hasInvalidHundredName (candidate b)
        then Some 1
      else if \<not> hasInvalidHundredName (candidate a) \<and> hasInvalidHundredName (candidate b)
        then Some (- 1)
      else None)"

definition mkAddress :: "string \<Rightarrow> string \<Rightarrow> string \<Rightarrow> nat \<Rightarrow> bool \<Rightarrow> Address" where
  "mkAddress h s u t flag =
     \<lparr> houseNumber = h, streetName = s, suburbName = u, threshold = t,
       candidate = \<lparr> group1 = [], group2 = [], hasInvalidHundredName = flag \<rparr> \<rparr>"

section \<open>Development applications and the database\<close>

text \<open>
  A development application as the page parsers return it; the seven fields are the seven
  columns of the table \<^verbatim>\<open>[data]\<close>, whose primary key \<^verbatim>\<open>council_reference\<close> holds the
  application number.
\<close>

record DevelopmentApplication =
  applicationNumber :: string
  address :: string
  description :: string
  informationUrl :: string
  commentUrl :: string
  scrapeDate :: string
  receivedDate :: string

text \<open>
  The table is a finite map from the primary key to the row.  \<open>insertRow\<close> is the function of
  \<^verbatim>\<open>scraper.ts\<close>, which runs \<^verbatim>\<open>insert or replace into [data]\<close>: a row with the same key is
  deleted and the new row stored.  \<open>insertRow_ignore\<close> is the function of the earlier revision
  of the scraper, which runs \<^verbatim>\<open>insert or ignore into [data]\<close>: a row with the same key stays
  and the new one is dropped.  Both are the success path of the statement; a failure of the
  database rejects the promise and stores nothing.
\<close>

type_synonym database = "string \<rightharpoonup> DevelopmentApplication"

definition insertRow :: "database \<Rightarrow> DevelopmentApplication \<Rightarrow> database" where
  "insertRow db developmentApplication =
     db(applicationNumber developmentApplication \<mapsto> developmentApplication)"

definition insertRow_ignore :: "database \<Rightarrow> DevelopmentApplication \<Rightarrow> database" where
  "insertRow_ignore db developmentApplication =
     (case db (applicationNumber developmentApplication) of
        None \<Rightarrow> db(applicationNumber developmentApplication \<mapsto> developmentApplication)
      | Some row \<Rightarrow> db)"

definition mkApplication :: "string \<Rightarrow> string \<Rightarrow> DevelopmentApplication" where
  "mkApplication n a =
     \<lparr> applicationNumber = n, address = a, description = ''No description provided'',
       informationUrl = ''register.pdf'', commentUrl = ''mailto:dcstreaky@streakybay.sa.gov.au'',
       scrapeDate = ''2019-03-15'', receivedDate = [] \<rparr>"

section \<open>The page loop of \<open>parsePdf\<close>\<close>

text \<open>
  \<open>parsePdf\<close> reads the pages of one document in order, at most 100 of them, and stops at
  the first index that is not below the number of pages.  Decoding a page, sorting its
  elements and running the parser of the old or the new format is the parameter
  \<open>parsePage\<close>, whose result \<open>None\<close> is the \<^verbatim>\<open>undefined\<close> of a skipped page.  A parsed
  application is pushed unless some application already in the array has the same
  application number.
\<close>

function parsePdf_loop ::
  "('page \<Rightarrow> DevelopmentApplication option) \<Rightarrow> 'page list \<Rightarrow> nat
     \<Rightarrow> DevelopmentApplication list \<Rightarrow> DevelopmentApplication list" where
  "parsePdf_loop parsePage pages pageIndex developmentApplications =
     (if pageIndex < 100 then
        (if pageIndex \<ge> length pages then developmentApplications
         else
           (case parsePage (pages ! pageIndex) of
              None \<Rightarrow> parsePdf_loop parsePage pages (pageIndex + 1) developmentApplications
            | Some developmentApplication \<Rightarrow>
                (if \<not> list_ex (\<lambda>otherDevelopmentApplication.
                        applicationNumber otherDevelopmentApplication
                          = applicationNumber developmentApplication) developmentApplications
                 then parsePdf_loop parsePage pages (pageIndex + 1)
                        (developmentApplications @ [developmentApplication])
                 else parsePdf_loop parsePage pages (pageIndex + 1) developmentApplications)))
      else developmentApplications)"
  by pat_completeness auto
termination
  by (relation "measure (\<lambda>(parsePage, pages, pageIndex, das). 100 - pageIndex)") auto

declare parsePdf_loop.simps [simp del]

definition parsePdf ::
  "('page \<Rightarrow> DevelopmentApplication option) \<Rightarrow> 'page list \<Rightarrow> DevelopmentApplication list" where
  "parsePdf parsePage pages = parsePdf_loop parsePage pages 0 []"

text \<open>The applications the pages read by the loop yield, in page order.\<close>

definition pageResults ::
  "('page \<Rightarrow> DevelopmentApplication option) \<Rightarrow> 'page list \<Rightarrow> DevelopmentApplication list" where
  "pageResults parsePage pages = List.map_filter parsePage (take 100 pages)"

text \<open>One pass of the loop body, as a function of the page and the array so far.\<close>

definition pushNew ::
  "('page \<Rightarrow> DevelopmentApplication option) \<Rightarrow> 'page
     \<Rightarrow> DevelopmentApplication list \<Rightarrow> DevelopmentApplication list" where
  "pushNew parsePage page das =
     (case parsePage page of
        None \<Rightarrow> das
      | Some d \<Rightarrow>
          if list_ex (\<lambda>other. applicationNumber other = applicationNumber d) das then das
          else das @ [d])"

definition pushApplication ::
  "DevelopmentApplication \<Rightarrow> DevelopmentApplication list \<Rightarrow> DevelopmentApplication list" where
  "pushApplication d das =
     (if list_ex (\<lambda>other. applicationNumber other = applicationNumber d) das then das
      else das @ [d])"

section \<open>Numbers\<close>

text \<open>
  A JavaScript number is an IEEE-754 double.  The model represents a finite double by the
  rational number it denotes (the two zeros are one value) and computes each arithmetic
  operation as the language does: the exact result, rounded to the nearest double, ties to
  the even significand.  An operation whose result is not finite (an overflow or a division
  by zero, which give \<^verbatim>\<open>Infinity\<close> or \<^verbatim>\<open>NaN\<close>) is \<open>None\<close>, and so is a computation that
  uses one: for such runs the model says nothing, and a result \<open>Some v\<close> is the number the
  program computes.

  \<open>fl q\<close> rounds the rational \<open>q\<close>.  A double is \<open>m * 2 ^ e\<close> with \<open>\<bar>m\<bar> < 2 ^ 53\<close> and
  \<open>- 1074 \<le> e \<le> 971\<close>; \<open>floorLog2 \<bar>q\<bar> - 52\<close> is the exponent that gives \<open>q\<close> a 53-bit
  significand, raised to \<open>- 1074\<close> for the subnormal numbers, and the result overflows when it
  reaches \<open>2 ^ 1024 = 2 ^ 53 * 2 ^ 971\<close>.
\<close>

function bitLength :: "int \<Rightarrow> int" where
  "bitLength n = (if n \<le> 0 then 0 else 1 + bitLength (n div 2))"
  by pat_completeness auto
termination
  by (relation "measure nat") auto

declare bitLength.simps [simp del]

text \<open>For \<open>q > 0\<close>, the integer \<open>k\<close> with \<open>2 ^ k \<le> q < 2 ^ (k + 1)\<close>.\<close>

definition floorLog2 :: "rat \<Rightarrow> int" where
  "floorLog2 q =
     (if 1 \<le> q then bitLength \<lfloor>q\<rfloor> - 1
      else - bitLength (\<lceil>1 / q\<rceil> - 1))"

definition pow2 :: "int \<Rightarrow> rat" where
  "pow2 e = (if 0 \<le> e then 2 ^ nat e else 1 / 2 ^ nat (- e))"

definition roundHalfEven :: "rat \<Rightarrow> int" where
  "roundHalfEven q =
     (let f = \<lfloor>q\<rfloor>; d = q - of_int f
      in if d < 1 / 2 then f else if 1 / 2 < d then f + 1 else if even f then f else f + 1)"

definition fl :: "rat \<Rightarrow> rat option" where
  "fl q =
     (if q = 0 then Some 0
      else
        (let e = max (floorLog2 \<bar>q\<bar> - 52) (- 1074);
             m = roundHalfEven (\<bar>q\<bar> / pow2 e)
         in if 971 < e \<or> (e = 971 \<and> 9007199254740992 \<le> m) then None
            else Some (sgn q * (of_int m * pow2 e))))"

definition num_add :: "rat \<Rightarrow> rat \<Rightarrow> rat option" where
  "num_add a b = fl (a + b)"

definition num_sub :: "rat \<Rightarrow> rat \<Rightarrow> rat option" where
  "num_sub a b = fl (a - b)"

definition num_mul :: "rat \<Rightarrow> rat \<Rightarrow> rat option" where
  "num_mul a b = fl (a * b)"

definition num_div :: "rat \<Rightarrow> rat \<Rightarrow> rat option" where
  "num_div a b = (if b = 0 then None else fl (a / b))"

text \<open>A rational number that is a double: rounding leaves it as it is.\<close>

definition representable :: "rat \<Rightarrow> bool" where
  "representable q = (fl q = Some q)"

section \<open>Rectangles and the overlap percentage\<close>

record Rectangle =
  x :: rat
  y :: rat
  width :: rat
  height :: rat

record Element = Rectangle +
  "text" :: string

text \<open>
  \<open>intersect\<close>, \<open>getArea\<close> and \<open>getPercentageOfElementInRectangle\<close> of \<^verbatim>\<open>scraper.ts\<close>, on
  any object that has the four fields of a rectangle.  The percentage function computes the
  area of the element and of the intersection first and then tests the former for zero; no
  step throws, so the test is written first here, and an element of area zero gives \<open>0\<close>
  whatever the intersection is.
\<close>

definition intersect :: "'a Rectangle_scheme \<Rightarrow> 'b Rectangle_scheme \<Rightarrow> Rectangle option" where
  "intersect rectangle1 rectangle2 =
     do {
       let x1 = max (x rectangle1) (x rectangle2);
       let y1 = max (y rectangle1) (y rectangle2);
       right1 \<leftarrow> num_add (x rectangle1) (width rectangle1);
       right2 \<leftarrow> num_add (x rectangle2) (width rectangle2);
       let x2 = min right1 right2;
       bottom1 \<leftarrow> num_add (y rectangle1) (height rectangle1);
       bottom2 \<leftarrow> num_add (y rectangle2) (height rectangle2);
       let y2 = min bottom1 bottom2;
       if x2 \<ge> x1 \<and> y2 \<ge> y1 then
         do {
           w \<leftarrow> num_sub x2 x1;
           h \<leftarrow> num_sub y2 y1;
           Some \<lparr> x = x1, y = y1, width = w, height = h \<rparr>
         }
       else Some \<lparr> x = 0, y = 0, width = 0, height = 0 \<rparr>
     }"

definition getArea :: "'a Rectangle_scheme \<Rightarrow> rat option" where
  "getArea rectangle = num_mul (width rectangle) (height rectangle)"

definition getPercentageOfElementInRectangle :: "Element \<Rightarrow> Rectangle \<Rightarrow> rat option" where
  "getPercentageOfElementInRectangle element rectangle =
     do {
       elementArea \<leftarrow> getArea element;
       if elementArea = 0 then Some 0
       else
         do {
           intersection \<leftarrow> intersect rectangle element;
           intersectionArea \<leftarrow> getArea intersection;
           product \<leftarrow> num_mul intersectionArea 100;
           num_div product elementArea
         }
     }"

section \<open>Properties of the string functions\<close>












lemma case_conversion_examples:
  "toUpperCase ''Stra'' @ toUpperCase [CHR 0xDF, CHR ''e''] = ''STRASSE''"
  "toUpperCase [CHR 0xE9, CHR 0xF7, CHR 0xFE] = [CHR 0xC9, CHR 0xF7, CHR 0xDE]"
  "toLowerCase [CHR 0xC9, CHR 0xD7, CHR 0xDE, CHR 0xDF] = [CHR 0xE9, CHR 0xD7, CHR 0xFE, CHR 0xDF]"
  "toLowerCase ''Bay RD 5'' = ''bay rd 5''"
  by code_simp+


text \<open>Splitting at the spaces and joining with a space undo each other, and no token holds
  a space.\<close>

lemma split_not_Nil: "split s \<noteq> []"
  by (induction s) (auto split: list.splits)

lemma join_Cons_Cons: "join ((c # t) # ts) = c # join (t # ts)"
  by (cases ts) simp_all

lemma join_Nil_Cons: "join ([] # t # ts) = CHR '' '' # join (t # ts)"
  by simp

lemma join_split: "join (split s) = s"
proof (induction s)
  case Nil
  then show ?case by simp
next
  case (Cons c cs)
  obtain t ts where ts: "split cs = t # ts"
    using split_not_Nil [of cs] by (cases "split cs") auto
  with Cons show ?case
    by (simp add: join_Cons_Cons join_Nil_Cons del: join.simps(3))
qed

lemma split_no_space: "t \<in> set (split s) \<Longrightarrow> CHR '' '' \<notin> set t"
  by (induction s arbitrary: t) (auto split: list.splits if_splits)

text \<open>The scan for \<^verbatim>\<open>/\bSA\b/\<close> succeeds exactly when the letters \<open>SA\<close> occur somewhere with
  no word character right before them and none right after them.\<close>

lemma containsSA_here:
  "(c = CHR ''S'' \<and> startsWith cs ''A''
      \<and> (case drop 1 cs of [] \<Rightarrow> True | d # _ \<Rightarrow> \<not> isWordChar d))
   = (\<exists>post. c # cs = ''SA'' @ post \<and> (post = [] \<or> \<not> isWordChar (hd post)))"
proof (cases cs)
  case Nil
  then show ?thesis by (simp add: startsWith_def)
next
  case (Cons d ds)
  then show ?thesis
    by (cases ds) (auto simp: startsWith_def)
qed

lemma containsSA_iff:
  "containsSA b s =
     (\<exists>pre post. s = pre @ ''SA'' @ post
        \<and> (if pre = [] then \<not> b else \<not> isWordChar (last pre))
        \<and> (post = [] \<or> \<not> isWordChar (hd post)))"
proof (induction s arbitrary: b)
  case Nil
  then show ?case by simp
next
  case (Cons c cs)
  let ?ok = "\<lambda>post. post = [] \<or> \<not> isWordChar (hd post)"
  let ?A = "\<exists>post. c # cs = ''SA'' @ post \<and> ?ok post"
  let ?B = "\<exists>pre post. cs = pre @ ''SA'' @ post
              \<and> (if pre = [] then \<not> isWordChar c else \<not> isWordChar (last pre)) \<and> ?ok post"
  let ?L = "\<exists>pre post. c # cs = pre @ ''SA'' @ post
              \<and> (if pre = [] then \<not> b else \<not> isWordChar (last pre)) \<and> ?ok post"
  have split: "?L = ((\<not> b \<and> ?A) \<or> ?B)"
  proof
    assume ?L
    then obtain pre post where p: "c # cs = pre @ ''SA'' @ post"
      and q: "if pre = [] then \<not> b else \<not> isWordChar (last pre)" and r: "?ok post"
      by blast
    show "(\<not> b \<and> ?A) \<or> ?B"
    proof (cases pre)
      case Nil
      with p q r have "\<not> b \<and> ?A" by simp
      then show ?thesis ..
    next
      case (Cons x pre')
      with p have cs: "cs = pre' @ ''SA'' @ post" and x: "x = c" by simp_all
      from q Cons x have "if pre' = [] then \<not> isWordChar c else \<not> isWordChar (last pre')"
        by (simp split: if_splits)
      with cs r have ?B by blast
      then show ?thesis ..
    qed
  next
    assume "(\<not> b \<and> ?A) \<or> ?B"
    then show ?L
    proof
      assume a: "\<not> b \<and> ?A"
      then obtain post where "c # cs = ''SA'' @ post" "?ok post"
        by blast
      with a have "c # cs = [] @ ''SA'' @ post
          \<and> (if [] = ([]::string) then \<not> b else \<not> isWordChar (last [])) \<and> ?ok post"
        by simp
      then show ?L by blast
    next
      assume ?B
      then obtain pre post where cs: "cs = pre @ ''SA'' @ post"
        and q: "if pre = [] then \<not> isWordChar c else \<not> isWordChar (last pre)" and r: "?ok post"
        by blast
      from cs q r have "c # cs = (c # pre) @ ''SA'' @ post
          \<and> (if c # pre = [] then \<not> b else \<not> isWordChar (last (c # pre))) \<and> ?ok post"
        by (simp split: if_splits)
      then show ?L by blast
    qed
  qed
  have "containsSA b (c # cs) = ((\<not> b \<and> ?A) \<or> containsSA (isWordChar c) cs)"
    using containsSA_here [of c cs] by (simp only: containsSA.simps)
  also have "containsSA (isWordChar c) cs = ?B"
    by (rule Cons.IH)
  finally show ?case
    using split by (simp only:)
qed

lemma containsSA_standalone:
  "containsSA False s =
     (\<exists>pre post. s = pre @ ''SA'' @ post
        \<and> (pre = [] \<or> \<not> isWordChar (last pre))
        \<and> (post = [] \<or> \<not> isWordChar (hd post)))"
proof -
  have "(if pre = [] then \<not> False else \<not> isWordChar (last pre))
          = (pre = [] \<or> \<not> isWordChar (last pre))" for pre :: string
    by simp
  then show ?thesis
    by (simp only: containsSA_iff [of False s])
qed

section \<open>Properties of \<open>formatAddress\<close>\<close>

subsection \<open>The post code and the state\<close>






lemma parseTokens_state_and_postcode:
  "parseTokens ''5 Bay RD Streaky Bay sa 5680'' =
     Inr (''5 Bay RD Streaky Bay sa 5680'', Some ''5680'', ''SA'',
          [''5'', ''Bay'', ''RD'', ''Streaky'', ''Bay''])"
  "parseTokens ''12 Nowhere ST'' =
     Inr (''12 Nowhere ST'', None, ''SA'', [''12'', ''Nowhere'', ''ST''])"
  "parseTokens ''5680'' = Inl ''5680''"
  by code_simp+

subsection \<open>The comma in a house number above 1000\<close>



















subsection \<open>The assembled address\<close>

lemma dropTrailing_eq_Nil: "(dropTrailing P s = []) = (\<forall>c\<in>set s. P c)"
  by (simp add: dropTrailing_def dropWhile_eq_Nil_conv)

lemma trim_eq_Nil: "(trim s = []) = (\<forall>c\<in>set s. isSpace c)"
proof
  assume "trim s = []"
  then have all: "\<forall>c\<in>set (dropWhile isSpace (rev s)). isSpace c"
    by (simp add: trim_def dropTrailing_def dropWhile_eq_Nil_conv)
  have "dropWhile isSpace (rev s) = []"
  proof (rule ccontr)
    assume ne: "dropWhile isSpace (rev s) \<noteq> []"
    then have "\<not> isSpace (hd (dropWhile isSpace (rev s)))"
      by (rule hd_dropWhile)
    moreover have "hd (dropWhile isSpace (rev s)) \<in> set (dropWhile isSpace (rev s))"
      using ne by simp
    ultimately show False using all by blast
  qed
  then show "\<forall>c\<in>set s. isSpace c"
    by (simp add: dropWhile_eq_Nil_conv)
next
  assume "\<forall>c\<in>set s. isSpace c"
  then have "dropTrailing isSpace s = []"
    by (simp add: dropTrailing_eq_Nil)
  then show "trim s = []"
    by (simp add: trim_def)
qed

lemma set_join: "t \<in> set ts \<Longrightarrow> set t \<subseteq> set (join ts)"
  by (induction ts rule: join.induct) auto

lemma isDigit_not_isSpace: "isDigit c \<Longrightarrow> \<not> isSpace c"
  by (auto simp: isDigit_def isSpace_def)

lemma isPostCode_trim: "isPostCode p \<Longrightarrow> p \<in> set ts \<Longrightarrow> trim (join ts) \<noteq> []"
proof -
  assume p: "isPostCode p" and mem: "p \<in> set ts"
  from p obtain c where c: "c \<in> set p" "isDigit c"
    by (cases p rule: isPostCode.cases) auto
  with set_join [OF mem] have "c \<in> set (join ts)" by blast
  with c isDigit_not_isSpace show ?thesis
    by (auto simp: trim_eq_Nil)
qed

lemma ignoredAddress_Nil: "ignoredAddress []"
  by (simp add: ignoredAddress_def)

lemma removeHouseNumberComma_eq_Nil: "(removeHouseNumberComma s = []) = (s = [])"
  by (cases s rule: test_dd_ddd.cases) (auto simp: removeHouseNumberComma_def)

lemma popPostCode_Some: "popPostCode ts = Some (Some p, ts') \<Longrightarrow> isPostCode p"
  by (auto simp: popPostCode_def pop_def split: if_splits)

lemma parseTokens_fallback:
  assumes "parseTokens a = Inr (addr, pc, st, toks)"
  shows "fallbackAddress addr pc st toks \<noteq> []"
proof (cases pc)
  case None
  with assms show ?thesis
    by (auto simp: parseTokens_def fallbackAddress_def Let_def ignoredAddress_Nil
          removeHouseNumberComma_eq_Nil split: if_splits option.splits)
next
  case (Some p)
  with assms have "isPostCode p"
    by (auto simp: parseTokens_def Let_def split: if_splits option.splits dest: popPostCode_Some)
  then have "trim (join (toks @ [st, p])) \<noteq> []"
    by (rule isPostCode_trim) simp
  with Some show ?thesis by (simp add: fallbackAddress_def)
qed

lemma ensureSA_eq_Nil: "(ensureSA s = []) = (s = [])"
  by (simp add: ensureSA_def)

lemma containsSA_append_SA: "containsSA b (s @ '' SA'')"
  by (induction s arbitrary: b) (simp_all add: startsWith_def isWordChar_def)

lemma containsSA_ensureSA: "s \<noteq> [] \<Longrightarrow> containsSA False (ensureSA s)"
  by (simp add: ensureSA_def containsSA_append_SA)

lemma streetNameLoop_keeps_suburb:
  "streetNameLoop g m n (Some s) toks = Inr (sn, sub, toks') \<Longrightarrow> sub = Some s"
  by (induction n) (auto simp: Let_def split: option.splits)

lemma streetNameLoop_backfill:
  "streetNameLoop g m n None toks = Inr (sn, sub, toks') \<Longrightarrow> sub = suburbOfStreet g sn"
proof (induction n)
  case 0
  then show ?case by (simp add: suburbOfStreet_def)
next
  case (Suc n)
  let ?query = "trim (dropTrailing isComma (trim (join (slice_end (Suc n) toks))))"
  show ?case
  proof (cases "m ?query (map fst (StreetNames g)) 1")
    case None
    with Suc show ?thesis by (simp add: Let_def)
  next
    case (Some name)
    show ?thesis
    proof (cases "map_of (StreetNames g) name")
      case None
      with Some Suc.prems show ?thesis by (simp add: Let_def)
    next
      case inner: (Some keys)
      show ?thesis
      proof (cases "length keys = 1")
        case True
        then obtain key where key: "keys = [key]"
          by (auto simp: length_Suc_conv)
        with Some inner Suc.prems
        have "sn = Some name" and "sub = map_of (SuburbNames g) key"
          by (simp_all add: Let_def)
        with inner key show ?thesis by (simp add: suburbOfStreet_def)
      next
        case False
        with Some inner Suc.prems have "sn = Some name" and "sub = None"
          by (simp_all add: Let_def)
        with inner False show ?thesis
          by (cases keys rule: remdups_adj.cases) (simp_all add: suburbOfStreet_def)
      qed
    qed
  qed
qed

lemma resolveAddress_fallback:
  assumes "resolveAddress g m a = Inr (Inr r)"
  shows "fallback r \<noteq> []"
proof -
  from assms obtain addr pc st toks where pt: "parseTokens a = Inr (addr, pc, st, toks)"
    and fb: "fallback r = fallbackAddress addr pc st toks"
    by (auto simp: resolveAddress_def split: sum.splits prod.splits)
  from parseTokens_fallback [OF pt] fb show ?thesis by simp
qed

lemma assembleAddress_Some:
  assumes "resolvedSuburb r = Some s" and "fallback r \<noteq> []"
  shows "assembleAddress r \<noteq> []"
proof (cases "trim s = []")
  case True
  with assms show ?thesis by (simp add: assembleAddress_def ensureSA_eq_Nil)
next
  case False
  then have "s \<noteq> []" by (auto simp: trim_eq_Nil)
  with False assms show ?thesis by (simp add: assembleAddress_def ensureSA_eq_Nil Let_def)
qed

text \<open>What trimming and the removal of trailing characters leave: a piece of the string,
  with characters of the removed class only around it and none of them at its ends.\<close>

lemma dropTrailing_decompose:
  "\<exists>post. s = dropTrailing P s @ post \<and> list_all P post"
proof -
  have "rev s = takeWhile P (rev s) @ dropWhile P (rev s)"
    by simp
  then have "s = dropTrailing P s @ rev (takeWhile P (rev s))"
    unfolding dropTrailing_def by (metis rev_append rev_rev_ident)
  moreover have "list_all P (rev (takeWhile P (rev s)))"
    by (auto simp: list_all_iff dest: set_takeWhileD)
  ultimately show ?thesis by blast
qed

lemma trim_decompose:
  "\<exists>pre post. s = pre @ trim s @ post \<and> list_all isSpace pre \<and> list_all isSpace post"
proof -
  obtain post where post: "s = dropTrailing isSpace s @ post" "list_all isSpace post"
    using dropTrailing_decompose [of s isSpace] by blast
  have "dropTrailing isSpace s
          = takeWhile isSpace (dropTrailing isSpace s) @ trim s"
    by (simp add: trim_def)
  with post(1) have "s = takeWhile isSpace (dropTrailing isSpace s) @ trim s @ post"
    by (metis append.assoc)
  moreover have "list_all isSpace (takeWhile isSpace (dropTrailing isSpace s))"
    by (auto simp: list_all_iff dest: set_takeWhileD)
  ultimately show ?thesis using post(2) by blast
qed

lemma dropTrailing_last: "dropTrailing P s \<noteq> [] \<Longrightarrow> \<not> P (last (dropTrailing P s))"
proof -
  assume ne: "dropTrailing P s \<noteq> []"
  then have "dropWhile P (rev s) \<noteq> []"
    by (simp add: dropTrailing_def)
  then have "\<not> P (hd (dropWhile P (rev s)))"
    by (rule hd_dropWhile)
  with ne show ?thesis
    by (simp add: dropTrailing_def last_rev)
qed

lemma trim_ends:
  assumes "trim s \<noteq> []"
  shows "\<not> isSpace (hd (trim s)) \<and> \<not> isSpace (last (trim s))"
proof
  from assms show "\<not> isSpace (hd (trim s))"
    unfolding trim_def by (rule hd_dropWhile)
next
  let ?u = "dropTrailing isSpace s"
  from assms have u: "?u \<noteq> []"
    by (auto simp: trim_def)
  have "?u = takeWhile isSpace ?u @ trim s"
    by (simp add: trim_def)
  with assms have "last ?u = last (trim s)"
    by (metis last_appendR)
  with dropTrailing_last [OF u] show "\<not> isSpace (last (trim s))"
    by simp
qed

lemma streetAddress_decompose:
  "\<exists>pre gap commas post.
      s = pre @ trim (dropTrailing isComma (trim s)) @ gap @ commas @ post
      \<and> list_all isSpace pre \<and> list_all isSpace gap \<and> list_all isComma commas
      \<and> list_all isSpace post
      \<and> (trim (dropTrailing isComma (trim s)) @ gap = []
          \<or> \<not> isComma (last (trim (dropTrailing isComma (trim s)) @ gap)))"
proof -
  let ?t2 = "dropTrailing isComma (trim s)"
  obtain p1 q1 where 1: "s = p1 @ trim s @ q1" "list_all isSpace p1" "list_all isSpace q1"
    using trim_decompose [of s] by blast
  obtain q2 where 2: "trim s = ?t2 @ q2" "list_all isComma q2"
    using dropTrailing_decompose [of "trim s" isComma] by blast
  obtain p3 q3 where 3: "?t2 = p3 @ trim ?t2 @ q3" "list_all isSpace p3" "list_all isSpace q3"
    using trim_decompose [of ?t2] by blast
  have "s = (p1 @ p3) @ trim ?t2 @ q3 @ q2 @ q1"
    using 1(1) 2(1) 3(1) by (metis append.assoc)
  moreover have "list_all isSpace (p1 @ p3)"
    using 1(2) 3(2) by simp
  moreover have "trim ?t2 @ q3 = [] \<or> \<not> isComma (last (trim ?t2 @ q3))"
  proof (cases "trim ?t2 @ q3 = []")
    case True
    then show ?thesis by simp
  next
    case False
    then have "last ?t2 = last (trim ?t2 @ q3)"
      using 3(1) by (metis last_appendR)
    moreover from False 3(1) have "?t2 \<noteq> []"
      by auto
    ultimately show ?thesis
      using dropTrailing_last [of isComma "trim s"] by simp
  qed
  ultimately show ?thesis
    using 1(3) 2(2) 3(3) by blast
qed

lemma ensureSA_nonempty:
  "b \<noteq> [] \<Longrightarrow> ensureSA b = (if containsSA False b then b else b @ '' SA'')"
  by (simp add: ensureSA_def)

text \<open>
  C2 (amended).  When a suburb has been resolved, \<open>formatAddress\<close> returns the street
  address, a comma and a space, and the suburb (the suburb alone when the street address is
  empty).  The street address is the remaining tokens followed by the resolved street name
  (unless that name is blank), joined by single spaces, trimmed, with trailing commas
  stripped, and trimmed again: it is a piece of the joined text as it stands, with only
  white space before it and only white space and commas after it, and it neither begins nor
  ends with white space.  So the letter case of the remaining tokens is kept: nothing is
  upper-cased.  When the suburb string is blank the fallback address is returned instead.
  \<open>SA\<close> is appended when the standalone token \<open>SA\<close> is missing, that is when the letters
  \<open>SA\<close> occur nowhere without a letter, a digit or an underscore next to them; so the
  result is never empty and always holds that token.
\<close>

theorem formatAddress_assembly:
  assumes "resolveAddress g m a = Inr (Inr r)" and "resolvedSuburb r = Some s"
  shows
    "(let joined = join (remainingTokens r @
                     (case resolvedStreet r of
                        None \<Rightarrow> []
                      | Some name \<Rightarrow> if trim name = [] then [] else [name]));
          streetAddress = trim (dropTrailing isComma (trim joined));
          body = (if trim s = [] then fallback r
                  else streetAddress @ (if streetAddress = [] then [] else '', '') @ s);
          out = (if containsSA False body then body else body @ '' SA'');
          standalone = (\<lambda>t. \<exists>pre post. t = pre @ ''SA'' @ post
                          \<and> (pre = [] \<or> \<not> isWordChar (last pre))
                          \<and> (post = [] \<or> \<not> isWordChar (hd post)))
      in formatAddress g m n a = Inr out
         \<and> out \<noteq> [] \<and> standalone out \<and> containsSA False body = standalone body
         \<and> (\<exists>pre gap commas post.
               joined = pre @ streetAddress @ gap @ commas @ post
               \<and> list_all isSpace pre \<and> list_all isSpace gap \<and> list_all isComma commas
               \<and> list_all isSpace post
               \<and> (streetAddress @ gap = [] \<or> \<not> isComma (last (streetAddress @ gap))))
         \<and> (streetAddress = []
             \<or> \<not> isSpace (hd streetAddress) \<and> \<not> isSpace (last streetAddress)))"
proof -
  let ?toks = "remainingTokens r @
                 (case resolvedStreet r of
                    None \<Rightarrow> []
                  | Some name \<Rightarrow> if trim name = [] then [] else [name])"
  let ?sa = "trim (dropTrailing isComma (trim (join ?toks)))"
  let ?body = "if trim s = [] then fallback r
               else ?sa @ (if ?sa = [] then [] else '', '') @ s"
  let ?out = "if containsSA False ?body then ?body else ?body @ '' SA''"
  have sa: "streetAddressOf (remainingTokens r) (resolvedStreet r) = ?sa"
    by (cases "resolvedStreet r") (simp_all add: streetAddressOf_def)
  have body: "?body \<noteq> []"
  proof (cases "trim s = []")
    case True
    with resolveAddress_fallback [OF assms(1)] show ?thesis by simp
  next
    case False
    then have "s \<noteq> []" by (auto simp: trim_eq_Nil)
    with False show ?thesis by simp
  qed
  have "assembleAddress r = ensureSA ?body"
    using assms(2) by (simp add: assembleAddress_def sa Let_def)
  also have "\<dots> = ?out"
    using body by (rule ensureSA_nonempty)
  finally have eq: "formatAddress g m n a = Inr ?out"
    using assms(1) by (simp add: formatAddress_def)
  have ne: "?out \<noteq> []"
    using body by simp
  have "containsSA False ?out"
    by (simp add: containsSA_append_SA)
  then have out: "\<exists>pre post. ?out = pre @ ''SA'' @ post
                          \<and> (pre = [] \<or> \<not> isWordChar (last pre))
                          \<and> (post = [] \<or> \<not> isWordChar (hd post))"
    by (simp only: containsSA_standalone)
  have ends: "?sa = [] \<or> \<not> isSpace (hd ?sa) \<and> \<not> isSpace (last ?sa)"
    using trim_ends [of "dropTrailing isComma (trim (join ?toks))"] by blast
  from eq ne out containsSA_standalone [of ?body] streetAddress_decompose [of "join ?toks"] ends
  show ?thesis
    unfolding Let_def by (intro conjI)
qed

theorem formatAddress_assembly_witness:
  "formatAddress plainGazetteer didYouMean ''1/2019'' ''Lot 5, Eyre AV Wirrulla''
     = Inr ''Lot 5, EYRE AVENUE, WIRRULLA 5661 SA''
   \<and> formatAddress plainGazetteer didYouMean ''1/2019'' ''Lot 5, , Wirrulla''
     = Inr ''Lot 5, WIRRULLA 5661 SA''"
proof -
  let ?a = "''Lot 5, Eyre AV Wirrulla''"
  let ?b = "''Lot 5, , Wirrulla''"
  let ?r = "\<lparr> explicitPostCode = None, stateCode = ''SA'',
              fallback = ''Lot 5, Eyre AV Wirrulla'', remainingTokens = [''Lot'', ''5,''],
              resolvedStreet = Some ''EYRE AVENUE'',
              resolvedSuburb = Some ''WIRRULLA 5661'' \<rparr>"
  let ?q = "\<lparr> explicitPostCode = None, stateCode = ''SA'',
              fallback = ''Lot 5, , Wirrulla'', remainingTokens = [''Lot'', ''5,'', []],
              resolvedStreet = None,
              resolvedSuburb = Some ''WIRRULLA 5661'' \<rparr>"
  let ?sa = "\<lambda>r. trim (dropTrailing isComma (trim (join (remainingTokens r @
                 (case resolvedStreet r of
                    None \<Rightarrow> []
                  | Some name \<Rightarrow> if trim name = [] then [] else [name])))))"
  let ?body = "\<lambda>r s. if trim s = [] then fallback r
                      else ?sa r @ (if ?sa r = [] then [] else '', '') @ s"
  let ?out = "\<lambda>r s. if containsSA False (?body r s) then ?body r s else ?body r s @ '' SA''"
  have ra: "resolveAddress plainGazetteer didYouMean ?a = Inr (Inr ?r)"
    by code_simp
  have rb: "resolveAddress plainGazetteer didYouMean ?b = Inr (Inr ?q)"
    by code_simp
  have sa: "resolvedSuburb ?r = Some ''WIRRULLA 5661''"
    and sb: "resolvedSuburb ?q = Some ''WIRRULLA 5661''"
    by simp_all
  note A = formatAddress_assembly [OF ra sa, of "''1/2019''", unfolded Let_def]
  note B = formatAddress_assembly [OF rb sb, of "''1/2019''", unfolded Let_def]
  have ea: "?out ?r ''WIRRULLA 5661'' = ''Lot 5, EYRE AVENUE, WIRRULLA 5661 SA''"
    by code_simp
  have eb: "?out ?q ''WIRRULLA 5661'' = ''Lot 5, WIRRULLA 5661 SA''"
    by code_simp
  from A have fa: "formatAddress plainGazetteer didYouMean ''1/2019'' ?a
     = Inr ''Lot 5, EYRE AVENUE, WIRRULLA 5661 SA''"
    by (simp only: ea)
  from B have fb: "formatAddress plainGazetteer didYouMean ''1/2019'' ?b
     = Inr ''Lot 5, WIRRULLA 5661 SA''"
    by (simp only: eb)
  from fa fb show ?thesis
    by (intro conjI)
qed

text \<open>
  C3 (amended).  For an address that reaches the search for a suburb and for which neither
  the hundred-name path nor the suburb path finds one, \<open>formatAddress\<close> returns the empty
  string exactly when the street-name step supplies no suburb either; and the suburb that
  step supplies is the entry, in the table of suburbs, of the only suburb of the matched
  street: none when no street name is matched, when the matched street has several suburbs
  or when its suburb has no entry.
\<close>

theorem formatAddress_without_suburb:
  assumes "parseTokens a = Inr (addr, pc, st, toks)"
    and "findSuburb g m toks = Inr (None, toks')"
    and "streetNameLoop g m 5 None (expandStreetSuffix g toks') = Inr (sn, sub, toks'')"
  shows "(formatAddress g m n a = Inr []) = (sub = None) \<and> sub = suburbOfStreet g sn"
proof -
  let ?r = "\<lparr> explicitPostCode = pc, stateCode = st,
              fallback = fallbackAddress addr pc st toks,
              remainingTokens = toks'', resolvedStreet = sn,
              resolvedSuburb = (case (pc, sub) of
                                  (Some p, Some s) \<Rightarrow> Some (overridePostCode s p)
                                | _ \<Rightarrow> sub) \<rparr>"
  have res: "resolveAddress g m a = Inr (Inr ?r)"
    using assms by (simp add: resolveAddress_def)
  then have eq: "formatAddress g m n a = Inr (assembleAddress ?r)"
    by (simp add: formatAddress_def)
  have "(assembleAddress ?r = []) = (sub = None)"
  proof (cases sub)
    case None
    then show ?thesis by (simp add: assembleAddress_def split: option.splits)
  next
    case (Some s)
    then obtain s' where "resolvedSuburb ?r = Some s'"
      by (cases pc) auto
    from assembleAddress_Some [OF this] resolveAddress_fallback [OF res] Some
    show ?thesis by simp
  qed
  with eq streetNameLoop_backfill [OF assms(3)] show ?thesis by simp
qed


text \<open>
  The claim C2 as stated fails: for \<^verbatim>\<open>"Lot 5 Bay RD STREAKY BAY"\<close> the remaining tokens are
  \<open>Lot\<close> and \<open>5\<close>, the street is \<open>BAY ROAD\<close> and the suburb is \<open>STREAKY BAY SA 5680\<close>; the
  assembly of the specification is upper-cased, and \<open>formatAddress\<close> returns \<open>Lot\<close> as it
  was written.
\<close>

theorem formatAddress_keeps_letter_case:
  "resolveAddress sampleGazetteer didYouMean ''Lot 5 Bay RD STREAKY BAY''
     = Inr (Inr \<lparr> explicitPostCode = None, stateCode = ''SA'',
              fallback = ''Lot 5 Bay RD STREAKY BAY'', remainingTokens = [''Lot'', ''5''],
              resolvedStreet = Some ''BAY ROAD'',
              resolvedSuburb = Some ''STREAKY BAY SA 5680'' \<rparr>)
   \<and> formatAddress sampleGazetteer didYouMean ''1/2019'' ''Lot 5 Bay RD STREAKY BAY''
       = Inr ''Lot 5 BAY ROAD, STREAKY BAY SA 5680''
   \<and> specAssembly [''Lot'', ''5''] ''BAY ROAD'' ''STREAKY BAY SA 5680''
       = ''LOT 5 BAY ROAD, STREAKY BAY SA 5680''
   \<and> formatAddress sampleGazetteer didYouMean ''1/2019'' ''Lot 5 Bay RD STREAKY BAY''
       \<noteq> Inr (specAssembly [''Lot'', ''5''] ''BAY ROAD'' ''STREAKY BAY SA 5680'')"
proof -
  have res: "resolveAddress sampleGazetteer didYouMean ''Lot 5 Bay RD STREAKY BAY''
     = Inr (Inr \<lparr> explicitPostCode = None, stateCode = ''SA'',
              fallback = ''Lot 5 Bay RD STREAKY BAY'', remainingTokens = [''Lot'', ''5''],
              resolvedStreet = Some ''BAY ROAD'',
              resolvedSuburb = Some ''STREAKY BAY SA 5680'' \<rparr>)"
    by code_simp
  have asm: "assembleAddress \<lparr> explicitPostCode = None, stateCode = ''SA'',
              fallback = ''Lot 5 Bay RD STREAKY BAY'', remainingTokens = [''Lot'', ''5''],
              resolvedStreet = Some ''BAY ROAD'',
              resolvedSuburb = Some ''STREAKY BAY SA 5680'' \<rparr>
            = ''Lot 5 BAY ROAD, STREAKY BAY SA 5680''"
    by code_simp
  have out: "formatAddress sampleGazetteer didYouMean ''1/2019'' ''Lot 5 Bay RD STREAKY BAY''
       = Inr ''Lot 5 BAY ROAD, STREAKY BAY SA 5680''"
    by (simp add: formatAddress_def res asm)
  have spec: "specAssembly [''Lot'', ''5''] ''BAY ROAD'' ''STREAKY BAY SA 5680''
       = ''LOT 5 BAY ROAD, STREAKY BAY SA 5680''"
    by code_simp
  from res out spec show ?thesis by simp
qed

theorem formatAddress_without_suburb_witness:
  "formatAddress sampleGazetteer didYouMean ''1/2019'' ''12 Nowhere ST'' = Inr []"
proof -
  have pt: "parseTokens ''12 Nowhere ST''
              = Inr (''12 Nowhere ST'', None, ''SA'', [''12'', ''Nowhere'', ''ST''])"
    by code_simp
  have fs: "findSuburb sampleGazetteer didYouMean [''12'', ''Nowhere'', ''ST'']
              = Inr (None, [''12'', ''Nowhere'', ''ST''])"
    by code_simp
  have sl: "streetNameLoop sampleGazetteer didYouMean 5 None
              (expandStreetSuffix sampleGazetteer [''12'', ''Nowhere'', ''ST''])
              = Inr (None, None, [''12'', ''Nowhere'', ''ST''])"
    by code_simp
  from formatAddress_without_suburb [OF pt fs sl, of "''1/2019''"] show ?thesis
    by simp
qed

text \<open>
  The claim C3 as stated fails: for \<^verbatim>\<open>"22 Jefferson CT 5263"\<close> neither the hundred-name path
  nor the suburb path finds a suburb, the street \<open>JEFFERSON COURT\<close> is matched, its only suburb
  is taken, and the address returned is not empty.
\<close>

theorem formatAddress_street_backfill:
  "parseTokens ''22 Jefferson CT 5263''
     = Inr (''22 Jefferson CT 5263'', Some ''5263'', ''SA'', [''22'', ''Jefferson'', ''CT''])
   \<and> findSuburb sampleGazetteer didYouMean [''22'', ''Jefferson'', ''CT'']
       = Inr (None, [''22'', ''Jefferson'', ''CT''])
   \<and> formatAddress sampleGazetteer didYouMean ''1/2019'' ''22 Jefferson CT 5263''
       = Inr ''22 JEFFERSON COURT, WELLINGTON EAST SA 5263''
   \<and> formatAddress sampleGazetteer didYouMean ''1/2019'' ''22 Jefferson CT 5263'' \<noteq> Inr []"
proof -
  have pt: "parseTokens ''22 Jefferson CT 5263''
     = Inr (''22 Jefferson CT 5263'', Some ''5263'', ''SA'', [''22'', ''Jefferson'', ''CT''])"
    by code_simp
  have fs: "findSuburb sampleGazetteer didYouMean [''22'', ''Jefferson'', ''CT'']
       = Inr (None, [''22'', ''Jefferson'', ''CT''])"
    by code_simp
  have out: "formatAddress sampleGazetteer didYouMean ''1/2019'' ''22 Jefferson CT 5263''
       = Inr ''22 JEFFERSON COURT, WELLINGTON EAST SA 5263''"
    by code_simp
  from pt fs out show ?thesis by simp
qed

section \<open>Properties of the comparer\<close>

text \<open>
  C4.  When both candidates have a threshold of at most 2, one with a house number and the
  other without, the comparer puts the one with the house number first, whichever of the two
  thresholds is smaller: it returns \<open>-1\<close> with the numbered candidate on the left and \<open>1\<close>
  with it on the right.
\<close>

theorem addressComparer_houseNumber_first:
  assumes "threshold a \<le> 2" and "threshold b \<le> 2"
    and "houseNumber a \<noteq> []" and "houseNumber b = []"
  shows "addressComparer a b = Some (- 1) \<and> addressComparer b a = Some 1"
  using assms by (simp add: addressComparer_def)

theorem addressComparer_houseNumber_first_witness:
  "addressComparer (mkAddress ''35'' ''SCHOOL TERRACE'' ''PASKEVILLE'' 2 False)
                   (mkAddress [] ''RAILWAY TERRACE SOUTH'' ''PASKEVILLE'' 0 False) = Some (- 1)
   \<and> addressComparer (mkAddress [] ''RAILWAY TERRACE SOUTH'' ''PASKEVILLE'' 0 False)
                     (mkAddress ''35'' ''SCHOOL TERRACE'' ''PASKEVILLE'' 2 False) = Some 1"
  using addressComparer_houseNumber_first
    [of "mkAddress ''35'' ''SCHOOL TERRACE'' ''PASKEVILLE'' 2 False"
        "mkAddress [] ''RAILWAY TERRACE SOUTH'' ''PASKEVILLE'' 0 False"]
  by (simp add: mkAddress_def)

lemma addressComparer_beyond_two:
  "addressComparer (mkAddress ''35'' ''SCHOOL TERRA'' ''PASKEVILLE'' Number_MAX_VALUE False)
                   (mkAddress [] ''RAILWAY TERRACE SOUTH'' ''PASKEVILLE'' 0 False) = Some 1"
  by (simp add: addressComparer_def mkAddress_def Number_MAX_VALUE_def)

text \<open>
  C5.  With equal thresholds and the same emptiness of the house number, when exactly one of
  the two candidates comes from a split flagged \<open>hasInvalidHundredName\<close>, the comparer puts
  the unflagged candidate first.
\<close>

theorem addressComparer_invalid_hundred_last:
  assumes "threshold a = threshold b"
    and "(houseNumber a = []) = (houseNumber b = [])"
    and "\<not> hasInvalidHundredName (candidate a)" and "hasInvalidHundredName (candidate b)"
  shows "addressComparer a b = Some (- 1) \<and> addressComparer b a = Some 1"
  using assms by (auto simp add: addressComparer_def)

theorem addressComparer_invalid_hundred_last_witness:
  "addressComparer (mkAddress ''7'' ''LAKE VIEW ROAD'' ''BUTE'' 1 False)
                   (mkAddress ''7'' ''LAKE ROAD'' ''BUTE'' 1 True) = Some (- 1)
   \<and> addressComparer (mkAddress ''7'' ''LAKE ROAD'' ''BUTE'' 1 True)
                     (mkAddress ''7'' ''LAKE VIEW ROAD'' ''BUTE'' 1 False) = Some 1"
  using addressComparer_invalid_hundred_last
    [of "mkAddress ''7'' ''LAKE VIEW ROAD'' ''BUTE'' 1 False"
        "mkAddress ''7'' ''LAKE ROAD'' ''BUTE'' 1 True"]
  by (simp add: mkAddress_def)

text \<open>
  C10.  The comparer returns no number (\<^verbatim>\<open>undefined\<close>) exactly when the two candidates
  tie on every criterion: equal thresholds, the same emptiness of the house number and the
  same \<open>hasInvalidHundredName\<close> flag.  Such pairs exist (any candidate compared with itself),
  so the comparer is not a total numeric comparison.
\<close>

theorem addressComparer_undefined_on_ties:
  "(\<exists>c d. addressComparer c d = None)
   \<and> (addressComparer a b = None) =
       (threshold a = threshold b
        \<and> (houseNumber a = []) = (houseNumber b = [])
        \<and> hasInvalidHundredName (candidate a) = hasInvalidHundredName (candidate b))"
proof
  have "addressComparer (mkAddress [] [] [] 0 False) (mkAddress [] [] [] 0 False) = None"
    by (simp add: addressComparer_def mkAddress_def)
  then show "\<exists>c d. addressComparer c d = None" by blast
next
  show "(addressComparer a b = None) =
       (threshold a = threshold b
        \<and> (houseNumber a = []) = (houseNumber b = [])
        \<and> hasInvalidHundredName (candidate a) = hasInvalidHundredName (candidate b))"
    by (auto simp add: addressComparer_def)
qed

section \<open>Properties of the database insertion\<close>

lemma insertRow_idempotent: "insertRow (insertRow db d) d = insertRow db d"
  by (simp add: insertRow_def)

lemma insertRow_ignore_keeps_existing:
  "db (applicationNumber d) = Some row \<Longrightarrow> insertRow_ignore db d = db"
  by (simp add: insertRow_ignore_def)

lemma insertRow_ignore_inserts_new:
  "db (applicationNumber d) = None \<Longrightarrow> insertRow_ignore db d = db(applicationNumber d \<mapsto> d)"
  by (simp add: insertRow_ignore_def)

lemma insertRow_ignore_idempotent: "insertRow_ignore (insertRow_ignore db d) d = insertRow_ignore db d"
  by (simp add: insertRow_ignore_def split: option.splits)

text \<open>
  C1.  The claim says that a row whose application number is already in the table is left
  as it is.  \<open>insertRow\<close> of \<^verbatim>\<open>scraper.ts\<close> replaces it: after storing application
  \<open>1/2019\<close> with one address, inserting the same application number with another address
  leaves the second address in the table.  The earlier revision (\<open>insertRow_ignore\<close>) keeps
  the first row, as the lemmas above show.
\<close>

theorem insertRow_replaces_existing_row:
  "insertRow (insertRow Map.empty (mkApplication ''1/2019'' ''1 BAY ROAD, STREAKY BAY SA 5680''))
       (mkApplication ''1/2019'' ''2 EYRE AVENUE, STREAKY BAY SA 5680'') ''1/2019''
     = Some (mkApplication ''1/2019'' ''2 EYRE AVENUE, STREAKY BAY SA 5680'')
   \<and> insertRow (insertRow Map.empty (mkApplication ''1/2019'' ''1 BAY ROAD, STREAKY BAY SA 5680''))
       (mkApplication ''1/2019'' ''2 EYRE AVENUE, STREAKY BAY SA 5680'')
     \<noteq> insertRow Map.empty (mkApplication ''1/2019'' ''1 BAY ROAD, STREAKY BAY SA 5680'')
   \<and> insertRow_ignore (insertRow_ignore Map.empty (mkApplication ''1/2019'' ''1 BAY ROAD, STREAKY BAY SA 5680''))
       (mkApplication ''1/2019'' ''2 EYRE AVENUE, STREAKY BAY SA 5680'')
     = insertRow_ignore Map.empty (mkApplication ''1/2019'' ''1 BAY ROAD, STREAKY BAY SA 5680'')"
proof -
  let ?old = "mkApplication ''1/2019'' ''1 BAY ROAD, STREAKY BAY SA 5680''"
  let ?new = "mkApplication ''1/2019'' ''2 EYRE AVENUE, STREAKY BAY SA 5680''"
  have key: "applicationNumber ?old = ''1/2019''" "applicationNumber ?new = ''1/2019''"
    by (simp_all add: mkApplication_def)
  have differ: "?new \<noteq> ?old"
    by (simp add: mkApplication_def)
  have stored: "insertRow (insertRow Map.empty ?old) ?new ''1/2019'' = Some ?new"
    by (simp add: insertRow_def key)
  have before: "insertRow Map.empty ?old ''1/2019'' = Some ?old"
    by (simp add: insertRow_def key)
  have changed: "insertRow (insertRow Map.empty ?old) ?new \<noteq> insertRow Map.empty ?old"
  proof
    assume "insertRow (insertRow Map.empty ?old) ?new = insertRow Map.empty ?old"
    then have "insertRow (insertRow Map.empty ?old) ?new ''1/2019'' = insertRow Map.empty ?old ''1/2019''"
      by simp
    with stored before differ show False by simp
  qed
  have kept: "insertRow_ignore (insertRow_ignore Map.empty ?old) ?new = insertRow_ignore Map.empty ?old"
    by (simp add: insertRow_ignore_def key)
  from stored changed kept show ?thesis by blast
qed

section \<open>Properties of the page loop\<close>

lemma parsePdf_loop_fold:
  "parsePdf_loop parsePage pages i das = fold (pushNew parsePage) (drop i (take 100 pages)) das"
proof (induction parsePage pages i das rule: parsePdf_loop.induct)
  case (1 parsePage pages pageIndex das)
  show ?case
  proof (cases "pageIndex < 100 \<and> pageIndex < length pages")
    case False
    then show ?thesis by (subst parsePdf_loop.simps) auto
  next
    case True
    then have "pageIndex < length (take 100 pages)" by simp
    from Cons_nth_drop_Suc [OF this] True
    have d: "drop pageIndex (take 100 pages)
               = pages ! pageIndex # drop (Suc pageIndex) (take 100 pages)"
      by simp
    show ?thesis
    proof (cases "parsePage (pages ! pageIndex)")
      case None
      with True 1(1) [OF _ _ None] show ?thesis
        by (subst parsePdf_loop.simps) (simp add: d pushNew_def [of parsePage "pages ! pageIndex"])
    next
      case (Some da)
      with True 1(2,3) [OF _ _ Some] show ?thesis
        by (subst parsePdf_loop.simps) (simp add: d pushNew_def [of parsePage "pages ! pageIndex"])
    qed
  qed
qed

lemma fold_pushNew_map_filter:
  "fold (pushNew parsePage) ps das = fold pushApplication (List.map_filter parsePage ps) das"
proof (induction ps arbitrary: das)
  case Nil
  show ?case by (simp add: List.map_filter_simps)
next
  case (Cons p ps)
  show ?case
    by (cases "parsePage p")
      (simp_all add: Cons List.map_filter_simps pushNew_def [of parsePage p] pushApplication_def)
qed

lemma parsePdf_fold: "parsePdf parsePage pages = fold pushApplication (pageResults parsePage pages) []"
  by (simp add: parsePdf_def pageResults_def parsePdf_loop_fold fold_pushNew_map_filter)

lemma pushApplication_numbers:
  "applicationNumber ` set (pushApplication d das)
     = insert (applicationNumber d) (applicationNumber ` set das)"
proof (cases "list_ex (\<lambda>other. applicationNumber other = applicationNumber d) das")
  case True
  then obtain other where "other \<in> set das" "applicationNumber other = applicationNumber d"
    by (auto simp: list_ex_iff)
  then have "applicationNumber d \<in> applicationNumber ` set das"
    by (metis imageI)
  with True show ?thesis by (auto simp: pushApplication_def)
next
  case False
  then show ?thesis by (simp add: pushApplication_def)
qed

lemma fold_pushApplication_numbers:
  "applicationNumber ` set (fold pushApplication rs das)
     = applicationNumber ` set das \<union> applicationNumber ` set rs"
  by (induction rs arbitrary: das) (simp_all add: pushApplication_numbers)

lemma pushApplication_distinct:
  "distinct (map applicationNumber das) \<Longrightarrow> distinct (map applicationNumber (pushApplication d das))"
  by (auto simp: pushApplication_def list_ex_iff)

lemma fold_pushApplication_distinct:
  "distinct (map applicationNumber das)
     \<Longrightarrow> distinct (map applicationNumber (fold pushApplication rs das))"
  by (induction rs arbitrary: das) (simp_all add: pushApplication_distinct)

lemma find_append_case:
  "find P (xs @ ys) = (case find P xs of None \<Rightarrow> find P ys | Some found \<Rightarrow> Some found)"
  by (induction xs) auto

lemma fold_pushApplication_first:
  "distinct (map applicationNumber das) \<Longrightarrow> d \<in> set (fold pushApplication rs das) \<Longrightarrow>
     find (\<lambda>other. applicationNumber other = applicationNumber d) (das @ rs) = Some d"
proof (induction rs arbitrary: das)
  case Nil
  then show ?case
    by (induction das) auto
next
  case (Cons r rs)
  show ?case
  proof (cases "list_ex (\<lambda>other. applicationNumber other = applicationNumber r) das")
    case True
    with Cons
    have ih: "find (\<lambda>other. applicationNumber other = applicationNumber d) (das @ rs) = Some d"
      by (simp add: pushApplication_def)
    show ?thesis
    proof (cases "find (\<lambda>other. applicationNumber other = applicationNumber d) das")
      case None
      then have "applicationNumber r \<noteq> applicationNumber d"
        using True by (auto simp: find_None_iff list_ex_iff)
      with ih None show ?thesis by (simp add: find_append_case)
    next
      case (Some found)
      with ih show ?thesis by (simp add: find_append_case)
    qed
  next
    case False
    then have "distinct (map applicationNumber (das @ [r]))"
      using Cons.prems(1) by (auto simp: list_ex_iff)
    from Cons.IH [OF this] Cons.prems(2) False show ?thesis
      by (simp add: pushApplication_def)
  qed
qed

text \<open>
  C9.  The list \<open>parsePdf\<close> returns holds at most one application per application number;
  the application numbers in it are those the pages yielded; and every application in it is
  the first one, in page order, that the pages yielded with its number.  The pages are the
  ones the loop reads, the first 100 of the document.
\<close>

theorem parsePdf_first_occurrence_wins:
  "distinct (map applicationNumber (parsePdf parsePage pages))
   \<and> applicationNumber ` set (parsePdf parsePage pages)
       = applicationNumber ` set (pageResults parsePage pages)
   \<and> (\<forall>d \<in> set (parsePdf parsePage pages).
         find (\<lambda>other. applicationNumber other = applicationNumber d)
           (pageResults parsePage pages) = Some d)"
proof (intro conjI ballI)
  show "distinct (map applicationNumber (parsePdf parsePage pages))"
    by (simp add: parsePdf_fold fold_pushApplication_distinct)
  show "applicationNumber ` set (parsePdf parsePage pages)
          = applicationNumber ` set (pageResults parsePage pages)"
    by (simp add: parsePdf_fold fold_pushApplication_numbers)
  fix d
  assume "d \<in> set (parsePdf parsePage pages)"
  then have "d \<in> set (fold pushApplication (pageResults parsePage pages) [])"
    by (simp add: parsePdf_fold)
  from fold_pushApplication_first [OF _ this]
  show "find (\<lambda>other. applicationNumber other = applicationNumber d)
          (pageResults parsePage pages) = Some d"
    by simp
qed

theorem parsePdf_first_occurrence_wins_witness:
  "parsePdf (\<lambda>page. page)
     [Some (mkApplication ''1/2019'' ''1 BAY ROAD, STREAKY BAY SA 5680''), None,
      Some (mkApplication ''1/2019'' ''2 EYRE AVENUE, STREAKY BAY SA 5680''),
      Some (mkApplication ''2/2019'' ''3 WELLS STREET, STREAKY BAY SA 5680'')]
     = [mkApplication ''1/2019'' ''1 BAY ROAD, STREAKY BAY SA 5680'',
        mkApplication ''2/2019'' ''3 WELLS STREET, STREAKY BAY SA 5680'']
   \<and> distinct (map applicationNumber (parsePdf (\<lambda>page. page)
     [Some (mkApplication ''1/2019'' ''1 BAY ROAD, STREAKY BAY SA 5680''), None,
      Some (mkApplication ''1/2019'' ''2 EYRE AVENUE, STREAKY BAY SA 5680''),
      Some (mkApplication ''2/2019'' ''3 WELLS STREET, STREAKY BAY SA 5680'')]))
   \<and> find (\<lambda>other. applicationNumber other = ''1/2019'') (pageResults (\<lambda>page. page)
     [Some (mkApplication ''1/2019'' ''1 BAY ROAD, STREAKY BAY SA 5680''), None,
      Some (mkApplication ''1/2019'' ''2 EYRE AVENUE, STREAKY BAY SA 5680''),
      Some (mkApplication ''2/2019'' ''3 WELLS STREET, STREAKY BAY SA 5680'')])
     = Some (mkApplication ''1/2019'' ''1 BAY ROAD, STREAKY BAY SA 5680'')"
  using parsePdf_first_occurrence_wins [of "\<lambda>page. page"
     "[Some (mkApplication ''1/2019'' ''1 BAY ROAD, STREAKY BAY SA 5680''), None,
      Some (mkApplication ''1/2019'' ''2 EYRE AVENUE, STREAKY BAY SA 5680''),
      Some (mkApplication ''2/2019'' ''3 WELLS STREET, STREAKY BAY SA 5680'')]"]
  by (simp add: parsePdf_fold pageResults_def List.map_filter_simps pushApplication_def
        mkApplication_def)

section \<open>Properties of the overlap percentage\<close>

lemma fl_examples:
  "fl 9007199254740993 = Some 9007199254740992"
  "fl (1 / 10) = Some (3602879701896397 / 36028797018963968)"
  "fl (3602879701896397 / 36028797018963968 + 3602879701896397 / 18014398509481984)
     = Some (1351079888211149 / 4503599627370496)"
  "fl (- (5 / 2)) = Some (- (5 / 2))"
  by code_simp+

lemma fl_100: "fl 100 = Some 100"
  by code_simp

lemma intersect_inside:
  assumes "0 < width e" and "0 < height e"
    and "x r \<le> x e" and "y r \<le> y e"
    and "num_add (x r) (width r) = Some xr" and "x e + width e \<le> xr"
    and "num_add (y r) (height r) = Some yb" and "y e + height e \<le> yb"
    and "representable (x e + width e)" and "representable (y e + height e)"
    and "representable (width e)" and "representable (height e)"
  shows "intersect r e = Some \<lparr> x = x e, y = y e, width = width e, height = height e \<rparr>"
  using assms
  by (simp add: intersect_def num_add_def num_sub_def representable_def max_absorb2 min_absorb2)

text \<open>
  C8 (amended).  An element whose area is zero gives exactly \<open>0\<close>.  For an element of area
  \<open>a \<noteq> 0\<close> the result is the area of the intersection, times 100, divided by \<open>a\<close>, each
  operation rounded, and the divisor of the one division is \<open>a\<close>, not zero.  An element of
  positive width and height that lies inside the rectangle gives exactly \<open>100\<close> when its
  width and height, its right and bottom edges, its area and 100 times its area are doubles,
  so that no operation rounds; integer coordinates of moderate size are of this kind.
\<close>

theorem getPercentageOfElementInRectangle_cases:
  "(getArea element = Some 0 \<longrightarrow> getPercentageOfElementInRectangle element rectangle = Some 0)
   \<and> (\<forall>a. getArea element = Some a \<and> a \<noteq> 0 \<longrightarrow>
          getPercentageOfElementInRectangle element rectangle =
            do {
              intersection \<leftarrow> intersect rectangle element;
              intersectionArea \<leftarrow> getArea intersection;
              product \<leftarrow> num_mul intersectionArea 100;
              fl (product / a)
            })
   \<and> (0 < width element \<and> 0 < height element
        \<and> x rectangle \<le> x element \<and> y rectangle \<le> y element
        \<and> num_add (x rectangle) (width rectangle) = Some xr \<and> x element + width element \<le> xr
        \<and> num_add (y rectangle) (height rectangle) = Some yb \<and> y element + height element \<le> yb
        \<and> representable (x element + width element) \<and> representable (y element + height element)
        \<and> representable (width element) \<and> representable (height element)
        \<and> representable (width element * height element)
        \<and> representable (width element * height element * 100)
        \<longrightarrow> getPercentageOfElementInRectangle element rectangle = Some 100)"
proof (intro conjI allI impI)
  assume "getArea element = Some 0"
  then show "getPercentageOfElementInRectangle element rectangle = Some 0"
    by (simp add: getPercentageOfElementInRectangle_def)
next
  fix a
  assume "getArea element = Some a \<and> a \<noteq> 0"
  then show "getPercentageOfElementInRectangle element rectangle =
            do {
              intersection \<leftarrow> intersect rectangle element;
              intersectionArea \<leftarrow> getArea intersection;
              product \<leftarrow> num_mul intersectionArea 100;
              fl (product / a)
            }"
    by (simp add: getPercentageOfElementInRectangle_def num_div_def)
next
  assume h: "0 < width element \<and> 0 < height element
        \<and> x rectangle \<le> x element \<and> y rectangle \<le> y element
        \<and> num_add (x rectangle) (width rectangle) = Some xr \<and> x element + width element \<le> xr
        \<and> num_add (y rectangle) (height rectangle) = Some yb \<and> y element + height element \<le> yb
        \<and> representable (x element + width element) \<and> representable (y element + height element)
        \<and> representable (width element) \<and> representable (height element)
        \<and> representable (width element * height element)
        \<and> representable (width element * height element * 100)"
  then have inter: "intersect rectangle element
      = Some \<lparr> x = x element, y = y element, width = width element, height = height element \<rparr>"
    by (intro intersect_inside [where xr = xr and yb = yb]) simp_all
  from h have pos: "width element * height element \<noteq> 0"
    by simp
  from h have area: "getArea element = Some (width element * height element)"
    by (simp add: getArea_def num_mul_def representable_def)
  from h have area': "getArea \<lparr> x = x element, y = y element, width = width element,
                              height = height element \<rparr> = Some (width element * height element)"
    by (simp add: getArea_def num_mul_def representable_def)
  from h have prod: "num_mul (width element * height element) 100
                       = Some (width element * height element * 100)"
    by (simp add: num_mul_def representable_def)
  from pos have quot: "width element * height element * 100 / (width element * height element) = 100"
    by simp
  show "getPercentageOfElementInRectangle element rectangle = Some 100"
    using pos
    by (simp add: getPercentageOfElementInRectangle_def area inter area' prod num_div_def quot fl_100
          del: mult_eq_0_iff)
qed


theorem getPercentageOfElementInRectangle_cases_witness:
  "getPercentageOfElementInRectangle
     \<lparr> x = 10, y = 20, width = 30, height = 5, text = ''Application Number:'' \<rparr>
     \<lparr> x = 0, y = 0, width = 100, height = 100 \<rparr> = Some 100
   \<and> getPercentageOfElementInRectangle
     \<lparr> x = 10, y = 20, width = 0, height = 5, text = [] \<rparr>
     \<lparr> x = 0, y = 0, width = 100, height = 100 \<rparr> = Some 0"
proof -
  have edges: "num_add 0 100 = Some 100"
    by code_simp
  have exact: "representable 40" "representable 25" "representable 30" "representable 5"
    "representable 150" "representable 15000"
    by code_simp+
  have zero: "getArea \<lparr> x = 10, y = 20, width = 0, height = 5, text = [] \<rparr> = Some 0"
    by code_simp
  from getPercentageOfElementInRectangle_cases
         [of "\<lparr> x = 10, y = 20, width = 30, height = 5, text = ''Application Number:'' \<rparr>"
             "\<lparr> x = 0, y = 0, width = 100, height = 100 \<rparr>" 100 100]
       getPercentageOfElementInRectangle_cases
         [of "\<lparr> x = 10, y = 20, width = 0, height = 5, text = [] \<rparr>"
             "\<lparr> x = 0, y = 0, width = 100, height = 100 \<rparr>"]
       edges exact zero
  show ?thesis by simp
qed

text \<open>
  The claim C8 as stated fails for an element inside the rectangle when an operation
  rounds.  With \<open>x = 2 ^ 53\<close> and width \<open>1\<close> the right edge \<open>2 ^ 53 + 1\<close> rounds to \<open>2 ^ 53\<close>, the
  intersection has width \<open>0\<close> and the result is \<open>0\<close>.  With \<open>x\<close> the double nearest to \<open>0.1\<close> and
  the width the double nearest to \<open>0.2\<close>, the result is the double after \<open>100\<close>, which
  JavaScript prints as \<^verbatim>\<open>100.00000000000001\<close>.
\<close>

theorem getPercentageOfElementInRectangle_rounding:
  "representable 9007199254740992 \<and> representable 18014398509481984 \<and> representable 1
   \<and> (0::rat) \<le> 9007199254740992 \<and> (9007199254740992::rat) + 1 \<le> 0 + 18014398509481984
   \<and> getPercentageOfElementInRectangle
        \<lparr> x = 9007199254740992, y = 0, width = 1, height = 1, text = ''Property Address:'' \<rparr>
        \<lparr> x = 0, y = 0, width = 18014398509481984, height = 1 \<rparr> = Some 0
   \<and> representable (3602879701896397 / 36028797018963968)
   \<and> representable (3602879701896397 / 18014398509481984)
   \<and> (3602879701896397 / 36028797018963968 + 3602879701896397 / 18014398509481984 :: rat) \<le> 0 + 1
   \<and> getPercentageOfElementInRectangle
        \<lparr> x = 3602879701896397 / 36028797018963968, y = 0,
          width = 3602879701896397 / 18014398509481984, height = 1,
          text = ''Property Address:'' \<rparr>
        \<lparr> x = 0, y = 0, width = 1, height = 1 \<rparr> = Some (7036874417766401 / 70368744177664)
   \<and> (7036874417766401 / 70368744177664 :: rat) \<noteq> 100"
  by code_simp

end
